theory Spec2Isabelle
  imports Main
begin

section \<open>Data model\<close>

subsection \<open>The markdown tree (mdast)\<close>

text \<open>
  The converter reads an mdast tree. Only the fields the converter looks at are kept:
  the node kind, \<open>value\<close>, \<open>url\<close>, \<open>depth\<close>, \<open>lang\<close>, \<open>ordered\<close> and the children.
  Phrasing kinds are those of \<open>PhrasingContent\<close>; \<open>Delete\<close> is the node whose type tag
  is \<open>"delete"\<close> (strikethrough).
\<close>

datatype phrasing =
    Text string
  | Strong "phrasing list"
  | Emphasis "phrasing list"
  | Delete "phrasing list"
  | InlineCode string
  | Link string "phrasing list"
  | Break
  | ImageNode
  | ImageReference
  | LinkReference "phrasing list"
  | FootnoteReference
  | InlineHtml string

text \<open>
  Block kinds. A list item is the list of its children, a table is the list of its rows,
  a row the list of its cells, a cell the list of its phrasing children. \<open>lang\<close> and
  \<open>ordered\<close> may be absent (\<open>null\<close> or \<open>undefined\<close>): \<open>None\<close>.
\<close>

datatype block =
    Paragraph "phrasing list"
  | Heading nat "phrasing list"
  | Blockquote "block list"
  | CodeBlock string "string option"
  | ListNode "bool option" "block list list"
  | ThematicBreak
  | Table "phrasing list list list"
  | Html string
  | Definition
  | FootnoteDefinition "block list"

text \<open>
  A child of the root is any \<open>RootContent\<close>: a block, a phrasing node, or one of the
  remaining kinds (\<open>yaml\<close>, \<open>listItem\<close>, \<open>tableRow\<close>, \<open>tableCell\<close>).
  \<open>blockKind\<close> and \<open>phrasingKind\<close> give the \<open>type\<close> tag of a node.
\<close>

datatype root_content =
    RBlock block
  | RPhrasing phrasing
  | RYaml
  | RListItem
  | RTableRow
  | RTableCell

fun phrasingKind :: "phrasing \<Rightarrow> string" where
  "phrasingKind (Text v) = ''text''"
| "phrasingKind (Strong cs) = ''strong''"
| "phrasingKind (Emphasis cs) = ''emphasis''"
| "phrasingKind (Delete cs) = ''delete''"
| "phrasingKind (InlineCode v) = ''inlineCode''"
| "phrasingKind (Link url cs) = ''link''"
| "phrasingKind Break = ''break''"
| "phrasingKind ImageNode = ''image''"
| "phrasingKind ImageReference = ''imageReference''"
| "phrasingKind (LinkReference cs) = ''linkReference''"
| "phrasingKind FootnoteReference = ''footnoteReference''"
| "phrasingKind (InlineHtml v) = ''html''"

fun blockKind :: "block \<Rightarrow> string" where
  "blockKind (Paragraph cs) = ''paragraph''"
| "blockKind (Heading d cs) = ''heading''"
| "blockKind (Blockquote cs) = ''blockquote''"
| "blockKind (CodeBlock v lang) = ''code''"
| "blockKind (ListNode ordered items) = ''list''"
| "blockKind ThematicBreak = ''thematicBreak''"
| "blockKind (Table rows) = ''table''"
| "blockKind (Html v) = ''html''"
| "blockKind Definition = ''definition''"
| "blockKind (FootnoteDefinition cs) = ''footnoteDefinition''"

subsection \<open>Rich text and output blocks\<close>

record Annotations =
  bold :: bool
  italic :: bool
  strikethrough :: bool
  underline :: bool
  code :: bool
  color :: string

record TextBody =
  content :: string
  link :: "string option"

record NotionRichText =
  rtext :: TextBody
  annotations :: Annotations

datatype NotionBlock =
    NParagraph "NotionRichText list"
  | NHeading1 "NotionRichText list"
  | NHeading2 "NotionRichText list"
  | NHeading3 "NotionRichText list"
  | NBulletedListItem "NotionRichText list"
  | NNumberedListItem "NotionRichText list"
  | NQuote "NotionRichText list"
  | NCode "NotionRichText list" string
  | NDivider

fun blockType :: "NotionBlock \<Rightarrow> string" where
  "blockType (NParagraph rt) = ''paragraph''"
| "blockType (NHeading1 rt) = ''heading_1''"
| "blockType (NHeading2 rt) = ''heading_2''"
| "blockType (NHeading3 rt) = ''heading_3''"
| "blockType (NBulletedListItem rt) = ''bulleted_list_item''"
| "blockType (NNumberedListItem rt) = ''numbered_list_item''"
| "blockType (NQuote rt) = ''quote''"
| "blockType (NCode rt lang) = ''code''"
| "blockType NDivider = ''divider''"

fun rich_text :: "NotionBlock \<Rightarrow> NotionRichText list" where
  "rich_text (NParagraph rt) = rt"
| "rich_text (NHeading1 rt) = rt"
| "rich_text (NHeading2 rt) = rt"
| "rich_text (NHeading3 rt) = rt"
| "rich_text (NBulletedListItem rt) = rt"
| "rich_text (NNumberedListItem rt) = rt"
| "rich_text (NQuote rt) = rt"
| "rich_text (NCode rt lang) = rt"
| "rich_text NDivider = []"

section \<open>The converter\<close>

subsection \<open>Span literals\<close>

text \<open>
  Every span the converter builds from scratch is an object literal with all five flags
  given and \<open>color: "default"\<close>; \<open>plainSpan\<close> is the literal with every flag false,
  \<open>codeSpan\<close> the one of \<open>inlineCode\<close>.
\<close>

definition defaultAnnotations :: Annotations where
  "defaultAnnotations =
     \<lparr>bold = False, italic = False, strikethrough = False, underline = False,
      code = False, color = ''default''\<rparr>"

definition plainSpan :: "string \<Rightarrow> NotionRichText" where
  "plainSpan s = \<lparr>rtext = \<lparr>content = s, link = None\<rparr>, annotations = defaultAnnotations\<rparr>"

definition codeSpan :: "string \<Rightarrow> NotionRichText" where
  "codeSpan s =
     \<lparr>rtext = \<lparr>content = s, link = None\<rparr>, annotations = defaultAnnotations\<lparr>code := True\<rparr>\<rparr>"

definition newline :: string where
  "newline = [CHR 0x0A]"

subsection \<open>phrasingToRichText\<close>

text \<open>
  The loop over \<open>nodes\<close> pushes onto \<open>result\<close>; the recursion returns what the loop
  pushes for the first node, followed by what it pushes for the rest. The three
  formatting wrappers copy each inner span with one flag overridden
  (\<open>{...r, annotations: {...r.annotations, bold: true}}\<close>), a link copies it with a new
  \<open>text\<close> object holding the old content and the link's url.
\<close>

fun phrasingToRichText :: "phrasing list \<Rightarrow> NotionRichText list" where
  "phrasingToRichText [] = []"
| "phrasingToRichText (Text v # nodes) = plainSpan v # phrasingToRichText nodes"
| "phrasingToRichText (Strong children # nodes) =
     map (\<lambda>r. r\<lparr>annotations := (annotations r)\<lparr>bold := True\<rparr>\<rparr>) (phrasingToRichText children)
       @ phrasingToRichText nodes"
| "phrasingToRichText (Emphasis children # nodes) =
     map (\<lambda>r. r\<lparr>annotations := (annotations r)\<lparr>italic := True\<rparr>\<rparr>) (phrasingToRichText children)
       @ phrasingToRichText nodes"
| "phrasingToRichText (Delete children # nodes) =
     map (\<lambda>r. r\<lparr>annotations := (annotations r)\<lparr>strikethrough := True\<rparr>\<rparr>)
         (phrasingToRichText children)
       @ phrasingToRichText nodes"
| "phrasingToRichText (InlineCode v # nodes) = codeSpan v # phrasingToRichText nodes"
| "phrasingToRichText (Link url children # nodes) =
     map (\<lambda>r. r\<lparr>rtext := \<lparr>content = content (rtext r), link = Some url\<rparr>\<rparr>)
         (phrasingToRichText children)
       @ phrasingToRichText nodes"
| "phrasingToRichText (Break # nodes) = plainSpan newline # phrasingToRichText nodes"
| "phrasingToRichText (_ # nodes) = phrasingToRichText nodes"

subsection \<open>getPhrasingText\<close>

fun getPhrasingText :: "phrasing list \<Rightarrow> string" where
  "getPhrasingText [] = ''''"
| "getPhrasingText (Text v # nodes) = v @ getPhrasingText nodes"
| "getPhrasingText (Strong children # nodes) = getPhrasingText children @ getPhrasingText nodes"
| "getPhrasingText (Emphasis children # nodes) = getPhrasingText children @ getPhrasingText nodes"
| "getPhrasingText (Delete children # nodes) = getPhrasingText children @ getPhrasingText nodes"
| "getPhrasingText (Link url children # nodes) = getPhrasingText children @ getPhrasingText nodes"
| "getPhrasingText (InlineCode v # nodes) = v @ getPhrasingText nodes"
| "getPhrasingText (Break # nodes) = newline @ getPhrasingText nodes"
| "getPhrasingText (_ # nodes) = getPhrasingText nodes"

subsection \<open>listItemToRichText\<close>

text \<open>
  \<open>item.children[0]\<close> is \<open>undefined\<close> on an item without children; the optional chaining
  \<open>firstChild?.type\<close> then fails the test, as any first child that is not a paragraph does.
\<close>

fun listItemToRichText :: "block list \<Rightarrow> NotionRichText list" where
  "listItemToRichText (Paragraph children # rest) = phrasingToRichText children"
| "listItemToRichText _ = phrasingToRichText []"

subsection \<open>processBlock\<close>

text \<open>
  \<open>padSpace\<close> is the repeated \<open>if (richText.length === 0) richText.push(...)\<close> of the
  paragraph, heading and list branches. \<open>join\<close> is \<open>Array.prototype.join\<close> on strings.
\<close>

definition padSpace :: "NotionRichText list \<Rightarrow> NotionRichText list" where
  "padSpace richText = (if length richText = 0 then richText @ [plainSpan '' ''] else richText)"

fun join :: "string \<Rightarrow> string list \<Rightarrow> string" where
  "join sep [] = ''''"
| "join sep [x] = x"
| "join sep (x # y # ys) = x @ sep @ join sep (y # ys)"

text \<open>
  The blockquote branch collects \<open>richTextParts\<close> over the children: a paragraph child
  pushes its spans and a newline span; any other child is mapped recursively and, when
  the first block returned exists and has the key \<open>paragraph\<close>, that block's spans are
  pushed. \<open>slice(0, -1)\<close> then drops the last collected span when there is one.
\<close>

fun processBlock :: "block \<Rightarrow> NotionBlock list" where
  "processBlock (Paragraph children) = [NParagraph (padSpace (phrasingToRichText children))]"
| "processBlock (Heading depth children) =
     (let block = padSpace (phrasingToRichText children) in
      if depth = 1 then [NHeading1 block]
      else if depth = 2 then [NHeading2 block]
      else [NHeading3 block])"
| "processBlock (Blockquote children) =
     (let richTextParts =
            concat (map (\<lambda>child.
              case child of
                Paragraph cs \<Rightarrow> phrasingToRichText cs @ [plainSpan newline]
              | _ \<Rightarrow> (case processBlock child of
                         NParagraph rt # _ \<Rightarrow> rt
                       | _ \<Rightarrow> [])) children)
      in [NQuote (if length richTextParts > 0 then butlast richTextParts
                  else [plainSpan '' ''])])"
| "processBlock (CodeBlock v lang) =
     [NCode [plainSpan v] (case lang of Some l \<Rightarrow> l | None \<Rightarrow> ''plain text'')]"
| "processBlock (ListNode ordered items) =
     map (\<lambda>item.
            let richText = padSpace (listItemToRichText item) in
            if ordered = Some True then NNumberedListItem richText
            else NBulletedListItem richText) items"
| "processBlock ThematicBreak = [NDivider]"
| "processBlock (Table rows) =
     (let rows' = join newline (map (\<lambda>row. join '' | '' (map getPhrasingText row)) rows) in
      [NParagraph [plainSpan (if rows' = '''' then '' '' else rows')]])"
| "processBlock _ = [NParagraph [plainSpan '' '']]"

subsection \<open>markdownToNotionBlocks\<close>

text \<open>
  The source parses the markdown text with the library function \<open>fromMarkdown\<close> and walks
  \<open>root.children\<close>; the model starts from these children. The walk is the source's chain
  of tests on \<open>node.type\<close>: two groups of kinds go to \<open>processBlock\<close>, a third group is
  skipped with \<open>continue\<close>, and a node of any other kind matches no test and adds nothing.
  \<open>rootBlocks\<close> is the body of the loop: what one child of the root adds to \<open>blocks\<close>.
\<close>

fun rootBlocks :: "root_content \<Rightarrow> NotionBlock list" where
  "rootBlocks (RBlock b) =
     (if blockKind b = ''paragraph'' \<or> blockKind b = ''heading'' then processBlock b
      else if blockKind b = ''blockquote'' \<or> blockKind b = ''code'' \<or> blockKind b = ''list''
              \<or> blockKind b = ''thematicBreak'' \<or> blockKind b = ''table'' then processBlock b
      else if blockKind b = ''html'' \<or> blockKind b = ''definition''
              \<or> blockKind b = ''footnoteDefinition'' then []
      else [])"
| "rootBlocks (RPhrasing p) =
     (if phrasingKind p = ''break'' \<or> phrasingKind p = ''emphasis'' \<or> phrasingKind p = ''strong''
         \<or> phrasingKind p = ''delete'' \<or> phrasingKind p = ''inlineCode''
         \<or> phrasingKind p = ''link'' \<or> phrasingKind p = ''image''
         \<or> phrasingKind p = ''imageReference'' \<or> phrasingKind p = ''linkReference''
         \<or> phrasingKind p = ''footnoteReference'' \<or> phrasingKind p = ''html'' then []
      else [])"
| "rootBlocks _ = []"

fun markdownToNotionBlocks :: "root_content list \<Rightarrow> NotionBlock list" where
  "markdownToNotionBlocks [] = []"
| "markdownToNotionBlocks (node # rest) = rootBlocks node @ markdownToNotionBlocks rest"

section \<open>The converter under an argument limit\<close>

text \<open>
  Four statements of the converter pass a whole array as the arguments of one call:
  \<open>richTextParts.push(...phrasingToRichText(child.children))\<close> and
  \<open>richTextParts.push(...first.paragraph.rich_text)\<close> in the blockquote branch, and
  \<open>blocks.push(...processBlock(node))\<close> twice in \<open>markdownToNotionBlocks\<close>. A JavaScript
  engine accepts only so many arguments in one call and throws a \<open>RangeError\<close> beyond
  that. The limit depends on the engine and is the parameter \<open>maxArguments\<close>;
  \<open>spreadPush\<close> is \<open>target.push(...items)\<close> under it. The other branches, the inline
  converters and the list branch push one element at a time and are as before. The depth
  of the call stack, which the recursion on nested blockquotes and nested formatting can
  exhaust as well, is not modelled.
\<close>

datatype js_error = RangeError

definition spreadPush :: "nat \<Rightarrow> 'a list \<Rightarrow> 'a list \<Rightarrow> js_error + 'a list" where
  "spreadPush maxArguments target items =
     (if maxArguments < length items then Inl RangeError else Inr (target @ items))"

text \<open>
  \<open>spliceFirst\<close> is \<open>if (first && "paragraph" in first) richTextParts.push(...)\<close> on the
  blocks returned for a child; \<open>quotePartsChecked\<close> is the loop of the blockquote branch
  with \<open>richTextParts\<close> as its state.
\<close>

definition spliceFirst ::
  "nat \<Rightarrow> NotionRichText list \<Rightarrow> NotionBlock list \<Rightarrow> js_error + NotionRichText list" where
  "spliceFirst maxArguments richTextParts inner =
     (case inner of
        NParagraph rt # _ \<Rightarrow> spreadPush maxArguments richTextParts rt
      | _ \<Rightarrow> Inr richTextParts)"

fun processBlockChecked :: "nat \<Rightarrow> block \<Rightarrow> js_error + NotionBlock list"
  and quotePartsChecked ::
    "nat \<Rightarrow> block list \<Rightarrow> NotionRichText list \<Rightarrow> js_error + NotionRichText list" where
  "processBlockChecked maxArguments (Blockquote children) =
     (case quotePartsChecked maxArguments children [] of
        Inl e \<Rightarrow> Inl e
      | Inr richTextParts \<Rightarrow>
          Inr [NQuote (if length richTextParts > 0 then butlast richTextParts
                       else [plainSpan '' ''])])"
| "processBlockChecked maxArguments node = Inr (processBlock node)"
| "quotePartsChecked maxArguments [] richTextParts = Inr richTextParts"
| "quotePartsChecked maxArguments (Paragraph cs # rest) richTextParts =
     (case spreadPush maxArguments richTextParts (phrasingToRichText cs) of
        Inl e \<Rightarrow> Inl e
      | Inr parts \<Rightarrow> quotePartsChecked maxArguments rest (parts @ [plainSpan newline]))"
| "quotePartsChecked maxArguments (child # rest) richTextParts =
     (case processBlockChecked maxArguments child of
        Inl e \<Rightarrow> Inl e
      | Inr inner \<Rightarrow>
          (case spliceFirst maxArguments richTextParts inner of
             Inl e \<Rightarrow> Inl e
           | Inr parts \<Rightarrow> quotePartsChecked maxArguments rest parts))"

text \<open>
  The walk with \<open>blocks\<close> as its state: \<open>rootBlocksChecked\<close> is the body of the loop,
  \<open>walkChecked\<close> the loop.
\<close>

fun rootBlocksChecked ::
  "nat \<Rightarrow> root_content \<Rightarrow> NotionBlock list \<Rightarrow> js_error + NotionBlock list" where
  "rootBlocksChecked maxArguments (RBlock b) blocks =
     (if blockKind b = ''paragraph'' \<or> blockKind b = ''heading'' then
        (case processBlockChecked maxArguments b of
           Inl e \<Rightarrow> Inl e
         | Inr bs \<Rightarrow> spreadPush maxArguments blocks bs)
      else if blockKind b = ''blockquote'' \<or> blockKind b = ''code'' \<or> blockKind b = ''list''
              \<or> blockKind b = ''thematicBreak'' \<or> blockKind b = ''table'' then
        (case processBlockChecked maxArguments b of
           Inl e \<Rightarrow> Inl e
         | Inr bs \<Rightarrow> spreadPush maxArguments blocks bs)
      else Inr blocks)"
| "rootBlocksChecked maxArguments _ blocks = Inr blocks"

fun walkChecked ::
  "nat \<Rightarrow> root_content list \<Rightarrow> NotionBlock list \<Rightarrow> js_error + NotionBlock list" where
  "walkChecked maxArguments [] blocks = Inr blocks"
| "walkChecked maxArguments (node # rest) blocks =
     (case rootBlocksChecked maxArguments node blocks of
        Inl e \<Rightarrow> Inl e
      | Inr blocks' \<Rightarrow> walkChecked maxArguments rest blocks')"

definition markdownToNotionBlocksChecked ::
  "nat \<Rightarrow> root_content list \<Rightarrow> js_error + NotionBlock list" where
  "markdownToNotionBlocksChecked maxArguments nodes = walkChecked maxArguments nodes []"

section \<open>The batch emitter\<close>







section \<open>Notions used to state the properties\<close>





text \<open>
  \<open>quoteContribution\<close> states, kind by kind, what a child of a blockquote adds to the
  spans collected for the quote: a paragraph its spans and a newline span; a table, html,
  definition or footnote definition the spans of the one paragraph block it is mapped
  to; every other child nothing. It is compared with the blockquote branch of
  \<open>processBlock\<close> in \<open>quote_child\<close>.
\<close>

fun quoteContribution :: "block \<Rightarrow> NotionRichText list" where
  "quoteContribution (Paragraph cs) = phrasingToRichText cs @ [plainSpan newline]"
| "quoteContribution (Table rows) =
     (case processBlock (Table rows) of b # _ \<Rightarrow> rich_text b | [] \<Rightarrow> [])"
| "quoteContribution (Html v) = [plainSpan '' '']"
| "quoteContribution Definition = [plainSpan '' '']"
| "quoteContribution (FootnoteDefinition cs) = [plainSpan '' '']"
| "quoteContribution _ = []"


section \<open>Properties of the inline converters\<close>

text \<open>
  C10. For every phrasing node list, the contents of the spans returned by
  \<open>phrasingToRichText\<close>, concatenated in order, are the string returned by
  \<open>getPhrasingText\<close> on the same list: both walks keep the same text in the same order
  and drop the same kinds.
\<close>

theorem spans_content_is_plain_text:
  "concat (map (\<lambda>r. content (rtext r)) (phrasingToRichText nodes)) = getPhrasingText nodes"
  by (induction nodes rule: phrasingToRichText.induct)
     (simp_all add: plainSpan_def codeSpan_def o_def)

lemma phrasingToRichText_Cons:
  "phrasingToRichText (node # nodes) = phrasingToRichText [node] @ phrasingToRichText nodes"
  by (cases node) simp_all

lemma phrasingToRichText_append:
  "phrasingToRichText (xs @ ys) = phrasingToRichText xs @ phrasingToRichText ys"
  by (induction xs rule: phrasingToRichText.induct) simp_all








section \<open>Properties of the block mapper\<close>

text \<open>
  C7. A heading node gives exactly one block: \<open>heading_1\<close> at depth 1, \<open>heading_2\<close> at
  depth 2, and \<open>heading_3\<close> at every depth from 3 on, so at 4, 5 and 6.
\<close>

theorem heading_clamp:
  "(depth = 1 \<longrightarrow>
      processBlock (Heading depth children) = [NHeading1 (padSpace (phrasingToRichText children))])
   \<and> (depth = 2 \<longrightarrow>
      processBlock (Heading depth children) = [NHeading2 (padSpace (phrasingToRichText children))])
   \<and> (3 \<le> depth \<longrightarrow>
      processBlock (Heading depth children) = [NHeading3 (padSpace (phrasingToRichText children))])"
  by simp

theorem heading_clamp_witness:
  "map blockType (processBlock (Heading 1 [Text ''t''])) = [''heading_1'']
   \<and> map blockType (processBlock (Heading 2 [Text ''t''])) = [''heading_2'']
   \<and> (3::nat) \<le> 4 \<and> map blockType (processBlock (Heading 4 [Text ''t''])) = [''heading_3'']
   \<and> (3::nat) \<le> 5 \<and> map blockType (processBlock (Heading 5 [Text ''t''])) = [''heading_3'']
   \<and> (3::nat) \<le> 6 \<and> map blockType (processBlock (Heading 6 [Text ''t''])) = [''heading_3'']"
  using heading_clamp [of 1 "[Text ''t'']"] heading_clamp [of 2 "[Text ''t'']"]
    heading_clamp [of 4 "[Text ''t'']"] heading_clamp [of 5 "[Text ''t'']"]
    heading_clamp [of 6 "[Text ''t'']"]
  by simp

text \<open>
  C5. A list node gives one block per item, in order: a \<open>numbered_list_item\<close> when
  \<open>ordered\<close> is true and a \<open>bulleted_list_item\<close> otherwise. The spans of an item come
  from its first child alone, and only when that child is a paragraph; whatever follows
  the first child adds nothing. An item that gives no span gets the single space span.
\<close>

theorem list_items:
  "processBlock (ListNode ordered items) =
     map (\<lambda>item.
            (if ordered = Some True then NNumberedListItem else NBulletedListItem)
              (case item of
                 Paragraph children # rest \<Rightarrow>
                   (if phrasingToRichText children = [] then [plainSpan '' '']
                    else phrasingToRichText children)
               | _ \<Rightarrow> [plainSpan '' ''])) items"
  by (auto simp: padSpace_def Let_def split: list.splits block.splits)

text \<open>
  C6. A table node gives exactly one paragraph block with a single span, default
  annotations and no link. Its content is never empty: it is the single space when the
  joined text is empty, and otherwise the plain text of the cells, the cells of a row
  joined with \<open>" | "\<close> and the rows joined with a newline. A table with the rows
  \<open>a, b\<close> and \<open>c, d\<close> has the content \<open>a | b\<close>, newline, \<open>c | d\<close>.
\<close>

theorem table_flattening:
  "(\<exists>s. processBlock (Table rows) = [NParagraph [plainSpan s]]
        \<and> s \<noteq> ''''
        \<and> s = (let t = join newline (map (\<lambda>row. join '' | '' (map getPhrasingText row)) rows)
               in if t = '''' then '' '' else t))
   \<and> processBlock (Table [[[Text a], [Text b]], [[Text c], [Text d]]])
       = [NParagraph [plainSpan (a @ '' | '' @ b @ newline @ c @ '' | '' @ d)]]"
  by (simp add: Let_def)

text \<open>
  C1. The claim fails on a blockquote. The blockquote branch tests whether anything
  was collected before it drops the last collected span, so a blockquote whose only
  child is a paragraph holding just an image collects the newline span alone, drops
  it, and returns a quote block with no span at all.
\<close>

theorem blockquote_empty_span_list:
  "processBlock (Blockquote [Paragraph [ImageNode]]) = [NQuote []]"
  by simp

text \<open>
  Every block that is neither a divider nor a quote does carry at least one span.
\<close>

lemma other_blocks_nonempty:
  "b \<in> set (processBlock node) \<Longrightarrow> blockType b \<noteq> ''divider'' \<Longrightarrow> blockType b \<noteq> ''quote''
   \<Longrightarrow> 1 \<le> length (rich_text b)"
  by (cases node) (auto simp: padSpace_def Let_def Suc_le_eq split: if_splits)

subsection \<open>Blockquotes\<close>

lemma quote_child:
  "(case child of
      Paragraph cs \<Rightarrow> phrasingToRichText cs @ [plainSpan newline]
    | _ \<Rightarrow> (case processBlock child of NParagraph rt # _ \<Rightarrow> rt | _ \<Rightarrow> []))
   = quoteContribution child"
proof (cases child)
  case (ListNode ordered items)
  then show ?thesis by (cases items) (simp_all add: Let_def)
qed (simp_all add: Let_def)

lemma processBlock_Blockquote:
  "processBlock (Blockquote children) =
     [NQuote (if concat (map quoteContribution children) = [] then [plainSpan '' '']
              else butlast (concat (map quoteContribution children)))]"
proof -
  have body: "(\<lambda>child. case child of
              Paragraph cs \<Rightarrow> phrasingToRichText cs @ [plainSpan newline]
            | _ \<Rightarrow> (case processBlock child of NParagraph rt # _ \<Rightarrow> rt | _ \<Rightarrow> []))
        = quoteContribution"
    by (rule ext) (rule quote_child)
  show ?thesis
    by (simp only: processBlock.simps body Let_def length_greater_0_conv) simp
qed

text \<open>
  C2, as stated, fails: a child that is not a paragraph is spliced in only when the
  first block it is mapped to is a paragraph block. A heading between two paragraphs is
  mapped to a \<open>heading_1\<close> block with the span \<open>A\<close>, and the quote holds nothing of it.
\<close>

theorem blockquote_heading_not_spliced:
  "processBlock (Heading 1 [Text ''A'']) = [NHeading1 [plainSpan ''A'']]
   \<and> processBlock
         (Blockquote [Paragraph [Text ''Q''], Heading 1 [Text ''A''], Paragraph [Text ''R'']])
       = [NQuote [plainSpan ''Q'', plainSpan newline, plainSpan ''R'']]"
  by (simp add: padSpace_def)

lemma silent_child:
  "blockKind c \<in> {''heading'', ''blockquote'', ''code'', ''list'', ''thematicBreak''}
   \<Longrightarrow> quoteContribution c = []"
  by (cases c) simp_all

lemma silent_children:
  "\<forall>c \<in> set cs. blockKind c \<in> {''heading'', ''blockquote'', ''code'', ''list'', ''thematicBreak''}
   \<Longrightarrow> concat (map quoteContribution cs) = []"
  by (induction cs) (simp_all add: silent_child del: insert_iff)

text \<open>
  C2, amended. A blockquote gives exactly one quote block. A paragraph child
  contributes its spans and one newline span; a table, html, definition or
  footnote-definition child contributes the spans of the paragraph block it is mapped
  to, without the block; a heading, code, list, thematic-break or blockquote child
  contributes nothing. When the last child that contributes anything is a paragraph,
  that is, when only children that contribute nothing follow it, the spans of the quote
  are the contributions of the children before that paragraph, in order, followed by
  the spans of the paragraph, with no newline span after them. When no child contributes
  anything, the quote holds the single space span. Paragraphs \<open>A\<close> then \<open>B\<close> give the
  spans of \<open>A\<close>, one newline span, the spans of \<open>B\<close>. Nothing is said about a blockquote
  whose last contributing child is a table, html, definition or footnote definition.
\<close>

theorem blockquote_flattening:
  "(\<exists>spans. processBlock (Blockquote children) = [NQuote spans])
   \<and> ((\<forall>c \<in> set post.
          blockKind c \<in> {''heading'', ''blockquote'', ''code'', ''list'', ''thematicBreak''})
        \<longrightarrow> processBlock (Blockquote (children @ [Paragraph cs] @ post))
            = [NQuote (concat (map quoteContribution children) @ phrasingToRichText cs)])
   \<and> ((\<forall>c \<in> set quiet.
          blockKind c \<in> {''heading'', ''blockquote'', ''code'', ''list'', ''thematicBreak''})
        \<longrightarrow> processBlock (Blockquote quiet) = [NQuote [plainSpan '' '']])
   \<and> processBlock (Blockquote [Paragraph as, Paragraph bs])
       = [NQuote (phrasingToRichText as @ [plainSpan newline] @ phrasingToRichText bs)]"
proof (intro conjI impI)
  show "\<exists>spans. processBlock (Blockquote children) = [NQuote spans]"
    by (simp only: processBlock_Blockquote) blast
next
  assume post: "\<forall>c \<in> set post.
      blockKind c \<in> {''heading'', ''blockquote'', ''code'', ''list'', ''thematicBreak''}"
  have parts: "concat (map quoteContribution (children @ [Paragraph cs] @ post))
        = (concat (map quoteContribution children) @ phrasingToRichText cs) @ [plainSpan newline]"
    by (simp add: silent_children [OF post])
  show "processBlock (Blockquote (children @ [Paragraph cs] @ post))
       = [NQuote (concat (map quoteContribution children) @ phrasingToRichText cs)]"
    by (simp only: processBlock_Blockquote parts butlast_snoc) simp
next
  assume "\<forall>c \<in> set quiet.
      blockKind c \<in> {''heading'', ''blockquote'', ''code'', ''list'', ''thematicBreak''}"
  then have "concat (map quoteContribution quiet) = []" by (rule silent_children)
  then show "processBlock (Blockquote quiet) = [NQuote [plainSpan '' '']]"
    by (simp add: processBlock_Blockquote del: processBlock.simps)
next
  show "processBlock (Blockquote [Paragraph as, Paragraph bs])
       = [NQuote (phrasingToRichText as @ [plainSpan newline] @ phrasingToRichText bs)]"
    by (simp add: butlast_append)
qed

theorem blockquote_flattening_witness:
  "blockKind (Heading 1 [Text ''A''])
      \<in> {''heading'', ''blockquote'', ''code'', ''list'', ''thematicBreak''}
   \<and> blockKind ThematicBreak \<in> {''heading'', ''blockquote'', ''code'', ''list'', ''thematicBreak''}
   \<and> processBlock (Blockquote ([Paragraph [Text ''Q''], Html ''<hr>''] @ [Paragraph [Text ''R'']]
                                  @ [Heading 1 [Text ''A''], ThematicBreak]))
       = [NQuote [plainSpan ''Q'', plainSpan newline, plainSpan '' '', plainSpan ''R'']]
   \<and> processBlock (Blockquote [Heading 1 [Text ''A''], ThematicBreak]) = [NQuote [plainSpan '' '']]"
  using blockquote_flattening
          [of "[Paragraph [Text ''Q''], Html ''<hr>'']" "[Heading 1 [Text ''A''], ThematicBreak]"
              "[Text ''R'']" "[Heading 1 [Text ''A''], ThematicBreak]"]
  by simp

section \<open>Properties of the document walker\<close>

lemma markdownToNotionBlocks_append:
  "markdownToNotionBlocks (xs @ ys) = markdownToNotionBlocks xs @ markdownToNotionBlocks ys"
  by (induction xs) simp_all

lemma processBlock_length:
  "length (processBlock node) = (case node of ListNode ordered items \<Rightarrow> length items | _ \<Rightarrow> 1)"
  by (cases node) (simp_all add: Let_def)

lemma fallback_block:
  "blockKind node \<in> {''html'', ''definition'', ''footnoteDefinition''} \<Longrightarrow>
   processBlock node = [NParagraph [plainSpan '' '']]"
  by (cases node) simp_all

lemma dropped_phrasing:
  "phrasingKind p \<notin> {''text'', ''strong'', ''emphasis'', ''delete'', ''inlineCode'', ''link'', ''break''}
   \<Longrightarrow> phrasingToRichText (p # ps) = phrasingToRichText ps"
  by (cases p) simp_all

text \<open>
  C3, as stated, fails: the walker lists \<open>html\<close>, \<open>definition\<close> and
  \<open>footnoteDefinition\<close> among the kinds it skips at the root, so an html node between
  two paragraphs leaves no block between theirs.
\<close>

theorem root_html_dropped:
  "markdownToNotionBlocks
     [RBlock (Paragraph [Text ''a'']), RBlock (Html ''<hr>''), RBlock (Paragraph [Text ''b''])]
   = [NParagraph [plainSpan ''a''], NParagraph [plainSpan ''b'']]"
  by (simp add: padSpace_def)

text \<open>
  C3, amended. \<open>processBlock\<close> maps an html, definition or footnote-definition node to
  exactly one paragraph block holding the single space span. The walker does not pass
  such a node to \<open>processBlock\<close>: at the root it is skipped, and the output is that of
  the nodes before it followed by that of the nodes after it.
\<close>

theorem unsupported_block_placeholder:
  "processBlock (Html v) = [NParagraph [plainSpan '' '']]
   \<and> processBlock Definition = [NParagraph [plainSpan '' '']]
   \<and> processBlock (FootnoteDefinition cs) = [NParagraph [plainSpan '' '']]
   \<and> markdownToNotionBlocks (before @ RBlock (Html v) # after)
       = markdownToNotionBlocks before @ markdownToNotionBlocks after
   \<and> markdownToNotionBlocks (before @ RBlock Definition # after)
       = markdownToNotionBlocks before @ markdownToNotionBlocks after
   \<and> markdownToNotionBlocks (before @ RBlock (FootnoteDefinition cs) # after)
       = markdownToNotionBlocks before @ markdownToNotionBlocks after"
  by (simp add: markdownToNotionBlocks_append)

section \<open>The converter under an argument limit: properties\<close>

lemma spliceFirst_agree:
  "\<forall>cs. child \<noteq> Paragraph cs \<Longrightarrow> spliceFirst L acc (processBlock child) = Inr parts
   \<Longrightarrow> parts = acc @ quoteContribution child"
  using quote_child [of child]
  by (cases child)
     (auto simp: spliceFirst_def spreadPush_def
           simp del: processBlock.simps quoteContribution.simps
           split: list.splits NotionBlock.splits if_splits)

lemma other_child_step:
  assumes unfold: "quotePartsChecked L (child # rest) acc =
       (case processBlockChecked L child of
          Inl e \<Rightarrow> Inl e
        | Inr inner \<Rightarrow>
            (case spliceFirst L acc inner of
               Inl e \<Rightarrow> Inl e
             | Inr ps \<Rightarrow> quotePartsChecked L rest ps))"
    and np: "\<forall>cs. child \<noteq> Paragraph cs"
    and IH1: "\<And>bs. processBlockChecked L child = Inr bs \<longrightarrow> bs = processBlock child"
    and IH2: "\<And>inner ps parts. processBlockChecked L child = Inr inner \<Longrightarrow>
                spliceFirst L acc inner = Inr ps \<Longrightarrow>
                quotePartsChecked L rest ps = Inr parts \<longrightarrow>
                parts = ps @ concat (map quoteContribution rest)"
  shows "quotePartsChecked L (child # rest) acc = Inr parts \<longrightarrow>
         parts = acc @ concat (map quoteContribution (child # rest))"
proof
  assume run: "quotePartsChecked L (child # rest) acc = Inr parts"
  from run unfold obtain inner where i: "processBlockChecked L child = Inr inner"
    by (cases "processBlockChecked L child") simp_all
  from run unfold i obtain ps where p: "spliceFirst L acc inner = Inr ps"
    by (cases "spliceFirst L acc inner") simp_all
  from run unfold i p have r: "quotePartsChecked L rest ps = Inr parts"
    by simp
  from IH1 i have "inner = processBlock child" by blast
  with p np have "ps = acc @ quoteContribution child"
    by (simp add: spliceFirst_agree)
  moreover from IH2 [OF i p] r have "parts = ps @ concat (map quoteContribution rest)"
    by blast
  ultimately show "parts = acc @ concat (map quoteContribution (child # rest))"
    by simp
qed

text \<open>
  Where the converter under the limit returns, it returns what \<open>processBlock\<close> and
  \<open>markdownToNotionBlocks\<close> return.
\<close>

lemma checked_agree:
  "processBlockChecked L node = Inr bs \<longrightarrow> bs = processBlock node"
  "quotePartsChecked L children acc = Inr parts \<longrightarrow>
      parts = acc @ concat (map quoteContribution children)"
proof (induction L node and L children acc arbitrary: bs and parts
        rule: processBlockChecked_quotePartsChecked.induct)
  case (1 L children)
  show ?case
  proof
    assume "processBlockChecked L (Blockquote children) = Inr bs"
    then obtain ps where p: "quotePartsChecked L children [] = Inr ps"
      and bs: "bs = [NQuote (if length ps > 0 then butlast ps else [plainSpan '' ''])]"
      by (auto split: sum.splits)
    from "1.IH" p have "ps = concat (map quoteContribution children)" by simp
    with bs show "bs = processBlock (Blockquote children)"
      by (simp add: processBlock_Blockquote del: processBlock.simps)
  qed
next
  case (4 L cs rest acc)
  show ?case
  proof
    assume run: "quotePartsChecked L (Paragraph cs # rest) acc = Inr parts"
    then have fits: "spreadPush L acc (phrasingToRichText cs) = Inr (acc @ phrasingToRichText cs)"
      by (auto simp: spreadPush_def split: if_splits)
    with run have "quotePartsChecked L rest ((acc @ phrasingToRichText cs) @ [plainSpan newline])
        = Inr parts"
      by (simp del: append_assoc)
    with "4.IH" [OF fits]
    show "parts = acc @ concat (map quoteContribution (Paragraph cs # rest))"
      by simp
  qed
next
  case "5_1"
  show ?case by (rule other_child_step [OF _ _ "5_1.IH"]) simp_all
next
  case "5_2"
  show ?case by (rule other_child_step [OF _ _ "5_2.IH"]) simp_all
next
  case "5_3"
  show ?case by (rule other_child_step [OF _ _ "5_3.IH"]) simp_all
next
  case "5_4"
  show ?case by (rule other_child_step [OF _ _ "5_4.IH"]) simp_all
next
  case "5_5"
  show ?case by (rule other_child_step [OF _ _ "5_5.IH"]) simp_all
next
  case "5_6"
  show ?case by (rule other_child_step [OF _ _ "5_6.IH"]) simp_all
next
  case "5_7"
  show ?case by (rule other_child_step [OF _ _ "5_7.IH"]) simp_all
next
  case "5_8"
  show ?case by (rule other_child_step [OF _ _ "5_8.IH"]) simp_all
next
  case "5_9"
  show ?case by (rule other_child_step [OF _ _ "5_9.IH"]) simp_all
qed simp_all

lemma rootBlocksChecked_agree:
  "rootBlocksChecked L node acc = Inr bs \<Longrightarrow> bs = acc @ rootBlocks node"
proof (cases node)
  case (RBlock b)
  assume run: "rootBlocksChecked L node acc = Inr bs"
  show ?thesis
  proof (cases "processBlockChecked L b")
    case (Inl e)
    with run RBlock show ?thesis by (auto split: if_splits)
  next
    case (Inr out)
    with checked_agree(1) [of L b out] have "out = processBlock b" by simp
    with run RBlock Inr show ?thesis
      by (auto simp: spreadPush_def simp del: processBlockChecked.simps split: if_splits)
  qed
qed simp_all

lemma walkChecked_agree:
  "walkChecked L nodes acc = Inr bs \<Longrightarrow> bs = acc @ markdownToNotionBlocks nodes"
proof (induction nodes arbitrary: acc)
  case Nil
  then show ?case by simp
next
  case (Cons node rest)
  from Cons.prems obtain mid where m: "rootBlocksChecked L node acc = Inr mid"
    and r: "walkChecked L rest mid = Inr bs"
    by (auto split: sum.splits)
  from rootBlocksChecked_agree [OF m] Cons.IH [OF r] show ?case by simp
qed

lemma markdownToNotionBlocksChecked_agree:
  "markdownToNotionBlocksChecked L nodes = Inr bs \<Longrightarrow> bs = markdownToNotionBlocks nodes"
  using walkChecked_agree [of L nodes "[]" bs] by (simp add: markdownToNotionBlocksChecked_def)

text \<open>
  C8. The claim fails on the code: conversion can raise. Whatever the number of
  arguments the engine accepts in one call, a document that is one list with more items
  than that is a tree of the documented grammar on which \<open>markdownToNotionBlocks\<close> throws
  a \<open>RangeError\<close>: the list branch returns one block per item, and the walk passes them
  all at once to \<open>blocks.push\<close>.
\<close>

theorem spread_range_error:
  "markdownToNotionBlocksChecked maxArguments
     [RBlock (ListNode ordered (replicate (Suc maxArguments) [Paragraph [Text ''a'']]))]
   = Inl RangeError"
  by (simp add: markdownToNotionBlocksChecked_def spreadPush_def)

section \<open>Properties of the batch emitter\<close>














end
